theory Spec2Isabelle
  imports Main "HOL-Library.Sublist"
begin

section \<open>Constants of the data-access layer\<close>

text \<open>
  \<^verbatim>\<open>constants/api\<close>: the base URL, the stale times and the retry configuration.
  All numbers here are small non-negative integers, so they are naturals.
\<close>

definition API_BASE_URL :: string where
  "API_BASE_URL = ''https://openholidaysapi.org''"

definition CACHE_TIMES_COUNTRIES :: nat where
  "CACHE_TIMES_COUNTRIES = 1000 * 60 * 30"

definition CACHE_TIMES_HOLIDAYS :: nat where
  "CACHE_TIMES_HOLIDAYS = 1000 * 60 * 15"

definition MAX_RETRIES :: nat where
  "MAX_RETRIES = 3"

definition DELAY_MULTIPLIER :: nat where
  "DELAY_MULTIPLIER = 1000"

definition MAX_DELAY :: nat where
  "MAX_DELAY = 30000"

section \<open>Errors\<close>

text \<open>
  The validation library reports a failed parse as a \<^verbatim>\<open>ZodError\<close> holding one issue per
  offending place of the input; every check of the schemas below is a type check, so an
  issue is the expected type and the path to the place.
\<close>

datatype seg = Key string | Idx nat

datatype issue = InvalidType (expected: string) (path: "seg list")

datatype zod_error = ZodError (issues: "issue list")

text \<open>
  The two error classes the client throws, as one record of the properties an \<^verbatim>\<open>Error\<close>
  object of either class has: \<^verbatim>\<open>HolidaysApiError\<close> sets \<open>name\<close>, \<open>message\<close>, \<open>status\<close> and
  \<open>code\<close>; \<^verbatim>\<open>ValidationError\<close> sets \<open>name\<close>, \<open>message\<close> and \<open>cause\<close>.
\<close>

record js_error =
  name :: string
  message :: string
  status :: "nat option"
  code :: "string option"
  cause :: "zod_error option"

definition HolidaysApiError :: "string \<Rightarrow> nat option \<Rightarrow> string option \<Rightarrow> js_error" where
  "HolidaysApiError msg st cd =
     \<lparr>name = ''HolidaysApiError'', message = msg, status = st, code = cd, cause = None\<rparr>"

definition ValidationError :: "string \<Rightarrow> zod_error \<Rightarrow> js_error" where
  "ValidationError msg c =
     \<lparr>name = ''ValidationError'', message = msg, status = None, code = None, cause = Some c\<rparr>"

section \<open>Retry policy of the two hooks\<close>

text \<open>\<^verbatim>\<open>String.prototype.includes\<close>: the argument occurs as a contiguous substring.\<close>

definition includes_str :: "string \<Rightarrow> string \<Rightarrow> bool" where
  "includes_str s sub = sublist sub s"

text \<open>
  \<^verbatim>\<open>useCountries\<close>: the \<open>retry\<close> and \<open>retryDelay\<close> callbacks. The query library calls
  them with the number of failures so far, a non-negative integer. The delay is computed
  in double precision in the source; \<open>1000 * 2 ** n\<close> is exact until it overflows to
  infinity, and \<open>Math.min\<close> caps both at the maximum, so the result is the minimum over
  the naturals.
\<close>

definition useCountries_retry :: "nat \<Rightarrow> js_error \<Rightarrow> bool" where
  "useCountries_retry failureCount error =
     (if js_error.name error = ''ValidationError'' then False
      else failureCount < MAX_RETRIES)"

definition useCountries_retryDelay :: "nat \<Rightarrow> nat" where
  "useCountries_retryDelay attemptIndex = min (DELAY_MULTIPLIER * 2 ^ attemptIndex) MAX_DELAY"

text \<open>\<^verbatim>\<open>useHolidays\<close>: the same two callbacks, with the literal bounds of that hook.\<close>

definition useHolidays_retry :: "nat \<Rightarrow> js_error \<Rightarrow> bool" where
  "useHolidays_retry failureCount error =
     (if js_error.name error = ''ValidationError'' then False
      else if includes_str (message error) ''404'' then False
      else failureCount < 2)"

definition useHolidays_retryDelay :: "nat \<Rightarrow> nat" where
  "useHolidays_retryDelay attemptIndex = min (DELAY_MULTIPLIER * 2 ^ attemptIndex) 10000"

section \<open>JSON values and the schemas\<close>

text \<open>
  What \<^verbatim>\<open>response.json()\<close> yields: a JSON value. An object is its list of members (a
  parsed object has each key once), read by key with \<open>map_of\<close>. No schema of this
  program accepts a number, so the payload of \<open>JNum\<close> plays no part.
\<close>

datatype json =
    JNull
  | JBool bool
  | JNum int
  | JStr string
  | JArr "json list"
  | JObj "(string \<times> json) list"

text \<open>The schema constructors the program uses: \<^verbatim>\<open>z.string()\<close>, \<^verbatim>\<open>z.boolean()\<close>,
  \<^verbatim>\<open>z.array(s)\<close>, \<^verbatim>\<open>z.object({...})\<close> and \<^verbatim>\<open>s.optional()\<close>.\<close>

datatype schema =
    ZString
  | ZBoolean
  | ZArray schema
  | ZObject "(string \<times> schema) list"
  | ZOptional schema

fun is_optional :: "schema \<Rightarrow> bool" where
  "is_optional (ZOptional s) = True"
| "is_optional s = False"

fun type_name :: "schema \<Rightarrow> string" where
  "type_name ZString = ''string''"
| "type_name ZBoolean = ''boolean''"
| "type_name (ZArray s) = ''array''"
| "type_name (ZObject shape) = ''object''"
| "type_name (ZOptional s) = type_name s"

text \<open>
  The results of the parts of an array or object are gathered: the parse of the whole
  succeeds when every part does, and otherwise reports the issues of all failing parts,
  in order.
\<close>

fun collect :: "(issue list + 'a) list \<Rightarrow> issue list + 'a list" where
  "collect [] = Inr []"
| "collect (r # rs) =
     (case r of
        Inl es \<Rightarrow> (case collect rs of Inl es' \<Rightarrow> Inl (es @ es') | Inr vs \<Rightarrow> Inl es)
      | Inr v \<Rightarrow> (case collect rs of Inl es' \<Rightarrow> Inl es' | Inr vs \<Rightarrow> Inr (v # vs)))"

text \<open>
  \<^verbatim>\<open>schema.parse\<close> at a place \<open>p\<close> of the input. A string or boolean schema accepts
  exactly a value of that type; an array schema accepts an array whose every element
  parses; an object schema accepts an object (not an array, not null), reads each key of
  its shape and drops every other member. A key that is absent reads as undefined, which
  only an optional schema accepts, and the result then has no such member.
\<close>

fun parse :: "schema \<Rightarrow> seg list \<Rightarrow> json \<Rightarrow> issue list + json" where
  "parse ZString p (JStr s) = Inr (JStr s)"
| "parse ZString p v = Inl [InvalidType ''string'' p]"
| "parse ZBoolean p (JBool b) = Inr (JBool b)"
| "parse ZBoolean p v = Inl [InvalidType ''boolean'' p]"
| "parse (ZOptional s) p v = parse s p v"
| "parse (ZArray s) p (JArr js) =
     (case collect (map (\<lambda>ij. parse s (p @ [Idx (fst ij)]) (snd ij)) (enumerate 0 js)) of
        Inl es \<Rightarrow> Inl es
      | Inr vs \<Rightarrow> Inr (JArr vs))"
| "parse (ZArray s) p v = Inl [InvalidType ''array'' p]"
| "parse (ZObject shape) p (JObj kvs) =
     (case collect
             (map (\<lambda>f. case map_of kvs (fst f) of
                          None \<Rightarrow>
                            if is_optional (snd f) then Inr []
                            else Inl [InvalidType (type_name (snd f)) (p @ [Key (fst f)])]
                        | Some v \<Rightarrow>
                            (case parse (snd f) (p @ [Key (fst f)]) v of
                               Inl es \<Rightarrow> Inl es
                             | Inr x \<Rightarrow> Inr [(fst f, x)]))
                shape) of
        Inl es \<Rightarrow> Inl es
      | Inr ms \<Rightarrow> Inr (JObj (concat ms)))"
| "parse (ZObject shape) p v = Inl [InvalidType ''object'' p]"

definition schema_parse :: "schema \<Rightarrow> json \<Rightarrow> zod_error + json" where
  "schema_parse s data = (case parse s [] data of Inl es \<Rightarrow> Inl (ZodError es) | Inr v \<Rightarrow> Inr v)"

text \<open>The schemas of \<^verbatim>\<open>types/api\<close>.\<close>

definition LocalizedTextSchema :: schema where
  "LocalizedTextSchema = ZObject [(''language'', ZString), (''text'', ZString)]"

definition CountrySchema :: schema where
  "CountrySchema = ZObject
     [(''isoCode'', ZString),
      (''name'', ZArray LocalizedTextSchema),
      (''officialLanguages'', ZArray ZString)]"

definition HolidaySchema :: schema where
  "HolidaySchema = ZObject
     [(''id'', ZString),
      (''startDate'', ZString),
      (''endDate'', ZString),
      (''type'', ZString),
      (''nationwide'', ZBoolean),
      (''name'', ZArray LocalizedTextSchema),
      (''comment'', ZOptional (ZArray LocalizedTextSchema))]"

definition CountriesResponseSchema :: schema where
  "CountriesResponseSchema = ZArray CountrySchema"

definition HolidaysResponseSchema :: schema where
  "HolidaysResponseSchema = ZArray HolidaySchema"

text \<open>
  The types inferred from the schemas, \<^verbatim>\<open>LocalizedText\<close> and \<^verbatim>\<open>Country\<close>, and the JSON
  value each typed value is.
\<close>

record LocalizedText =
  language :: string
  "text" :: string

record Country =
  isoCode :: string
  name :: "LocalizedText list"
  officialLanguages :: "string list"

definition LocalizedText_json :: "LocalizedText \<Rightarrow> json" where
  "LocalizedText_json t = JObj [(''language'', JStr (language t)), (''text'', JStr (text t))]"

definition Country_json :: "Country \<Rightarrow> json" where
  "Country_json c = JObj
     [(''isoCode'', JStr (isoCode c)),
      (''name'', JArr (map LocalizedText_json (Country.name c))),
      (''officialLanguages'', JArr (map JStr (officialLanguages c)))]"

text \<open>
  A JSON value conforms to the shape of a typed value when it is an object whose members
  under the keys of the type hold that value's fields; members under other keys and the
  order of the members are free.
\<close>

fun conforms_LocalizedText :: "json \<Rightarrow> LocalizedText \<Rightarrow> bool" where
  "conforms_LocalizedText (JObj kvs) t =
     (map_of kvs ''language'' = Some (JStr (language t))
      \<and> map_of kvs ''text'' = Some (JStr (text t)))"
| "conforms_LocalizedText v t = False"

fun conforms_Country :: "json \<Rightarrow> Country \<Rightarrow> bool" where
  "conforms_Country (JObj kvs) c =
     (map_of kvs ''isoCode'' = Some (JStr (isoCode c))
      \<and> (case map_of kvs ''name'' of
            Some (JArr ns) \<Rightarrow> list_all2 conforms_LocalizedText ns (Country.name c)
          | _ \<Rightarrow> False)
      \<and> map_of kvs ''officialLanguages'' = Some (JArr (map JStr (officialLanguages c))))"
| "conforms_Country v c = False"

text \<open>An element that lacks a required field: a key of the Country shape, or a key of
  the LocalizedText shape in one of its names.\<close>

fun missing_LocalizedText_field :: "json \<Rightarrow> bool" where
  "missing_LocalizedText_field (JObj kvs) =
     (map_of kvs ''language'' = None \<or> map_of kvs ''text'' = None)"
| "missing_LocalizedText_field v = False"

fun missing_Country_field :: "json \<Rightarrow> bool" where
  "missing_Country_field (JObj kvs) =
     (map_of kvs ''isoCode'' = None \<or> map_of kvs ''name'' = None
      \<or> map_of kvs ''officialLanguages'' = None
      \<or> (case map_of kvs ''name'' of
            Some (JArr ns) \<Rightarrow> list_ex missing_LocalizedText_field ns
          | _ \<Rightarrow> False))"
| "missing_Country_field v = False"

section \<open>The API client\<close>

text \<open>
  The network as the client sees it. \<^verbatim>\<open>fetch(url)\<close> either rejects (with the message of
  the error it rejects with, or nothing when the reason is not an \<^verbatim>\<open>Error\<close>) or resolves
  to a response. \<^verbatim>\<open>response.json()\<close> either rejects with the message of its error, when
  the body is not JSON, or yields the JSON value; \<^verbatim>\<open>response.ok\<close> says that the status is
  in the range 200 to 299.
\<close>

record response =
  status :: nat
  statusText :: string
  body :: "string + json"

datatype fetch_outcome = Rejected "string option" | Resolved response

definition ok :: "response \<Rightarrow> bool" where
  "ok r = (200 \<le> response.status r \<and> response.status r \<le> 299)"

text \<open>What the \<^verbatim>\<open>try\<close> block of \<^verbatim>\<open>fetchWithValidation\<close> can throw, by the class the
  \<^verbatim>\<open>catch\<close> block tells apart.\<close>

datatype thrown =
    ThrownZodError zod_error
  | ThrownHolidaysApiError js_error
  | ThrownError string
  | ThrownOther

definition try_block :: "(string \<Rightarrow> fetch_outcome) \<Rightarrow> string \<Rightarrow> schema \<Rightarrow> thrown + json" where
  "try_block net url schema =
     (case net url of
        Rejected None \<Rightarrow> Inl ThrownOther
      | Rejected (Some msg) \<Rightarrow> Inl (ThrownError msg)
      | Resolved r \<Rightarrow>
          if \<not> ok r then
            Inl (ThrownHolidaysApiError
                  (HolidaysApiError (''API request failed: '' @ statusText r)
                     (Some (response.status r)) None))
          else
            (case body r of
               Inl msg \<Rightarrow> Inl (ThrownError msg)
             | Inr data \<Rightarrow>
                 (case schema_parse schema data of
                    Inl z \<Rightarrow> Inl (ThrownZodError z)
                  | Inr validatedData \<Rightarrow> Inr validatedData)))"

definition catch_block :: "thrown \<Rightarrow> js_error" where
  "catch_block t =
     (case t of
        ThrownZodError z \<Rightarrow> ValidationError ''Invalid API response format'' z
      | ThrownHolidaysApiError e \<Rightarrow> e
      | ThrownError msg \<Rightarrow> HolidaysApiError msg None None
      | ThrownOther \<Rightarrow> HolidaysApiError ''Unknown error occurred'' None None)"

definition fetchWithValidation ::
    "(string \<Rightarrow> fetch_outcome) \<Rightarrow> string \<Rightarrow> schema \<Rightarrow> js_error + json" where
  "fetchWithValidation net url schema =
     (case try_block net url schema of
        Inl t \<Rightarrow> Inl (catch_block t)
      | Inr v \<Rightarrow> Inr v)"

definition fetchCountries :: "(string \<Rightarrow> fetch_outcome) \<Rightarrow> js_error + json" where
  "fetchCountries net =
     fetchWithValidation net (API_BASE_URL @ ''/Countries'') CountriesResponseSchema"

text \<open>
  A year in a template literal is its decimal numeral (the years of the program are
  integers far below the magnitude at which JavaScript switches to exponent notation).
\<close>

definition digit_char :: "nat \<Rightarrow> char" where
  "digit_char d = ''0123456789'' ! d"

fun digits :: "nat \<Rightarrow> string" where
  "digits n =
     (if n < 10 then [digit_char n]
      else digits (n div 10) @ [digit_char (n mod 10)])"

declare digits.simps [simp del]

definition number_toString :: "int \<Rightarrow> string" where
  "number_toString y = (if y < 0 then ''-'' @ digits (nat (- y)) else digits (nat y))"

text \<open>
  \<^verbatim>\<open>fetchHolidays\<close>: \<open>year\<close> is \<open>None\<close> when the argument is omitted; \<open>nowYear\<close> is what
  \<^verbatim>\<open>new Date().getFullYear()\<close> returns. \<^verbatim>\<open>year || nowYear\<close> takes \<open>nowYear\<close> when
  \<open>year\<close> is undefined and also when it is 0.
\<close>

definition fetchHolidays_url :: "int \<Rightarrow> string \<Rightarrow> int option \<Rightarrow> string" where
  "fetchHolidays_url nowYear countryIsoCode year =
     (let currentYear = (case year of
                           None \<Rightarrow> nowYear
                         | Some y \<Rightarrow> if y = 0 then nowYear else y)
      in API_BASE_URL @ ''/PublicHolidays?countryIsoCode='' @ countryIsoCode
           @ ''&languageIsoCode=EN&validFrom='' @ number_toString currentYear
           @ ''-01-01&validTo='' @ number_toString currentYear @ ''-12-31'')"

definition fetchHolidays ::
    "(string \<Rightarrow> fetch_outcome) \<Rightarrow> int \<Rightarrow> string \<Rightarrow> int option \<Rightarrow> js_error + json" where
  "fetchHolidays net nowYear countryIsoCode year =
     fetchWithValidation net (fetchHolidays_url nowYear countryIsoCode year)
       HolidaysResponseSchema"

subsection \<open>The localization helper\<close>

text \<open>\<^verbatim>\<open>toLowerCase\<close> on the ASCII strings that language codes are: each capital
  letter becomes its small letter, every other character stays.\<close>

definition lower_char :: "char \<Rightarrow> char" where
  "lower_char c =
     (case map_of (zip ''ABCDEFGHIJKLMNOPQRSTUVWXYZ'' ''abcdefghijklmnopqrstuvwxyz'') c of
        None \<Rightarrow> c
      | Some l \<Rightarrow> l)"

definition toLowerCase :: "string \<Rightarrow> string" where
  "toLowerCase s = map lower_char s"

text \<open>\<^verbatim>\<open>a || b\<close> on a string that may be undefined: \<open>b\<close> when \<open>a\<close> is undefined or
  empty.\<close>

definition or_else :: "string option \<Rightarrow> string option \<Rightarrow> string option" where
  "or_else a b = (case a of None \<Rightarrow> b | Some s \<Rightarrow> if s = [] then b else Some s)"

definition getLocalizedText :: "LocalizedText list \<Rightarrow> string option \<Rightarrow> string" where
  "getLocalizedText items preferredLanguage =
     (let lang = (case preferredLanguage of None \<Rightarrow> ''en'' | Some l \<Rightarrow> l);
          preferred = find (\<lambda>item. toLowerCase (language item) = toLowerCase lang) items
      in case or_else (map_option text preferred)
                (case items of [] \<Rightarrow> None | item # _ \<Rightarrow> Some (text item)) of
           None \<Rightarrow> ''Unknown''
         | Some s \<Rightarrow> if s = [] then ''Unknown'' else s)"

section \<open>The hooks and the holiday list\<close>

text \<open>
  The options each hook hands to the query library. A query key is a list of strings,
  numbers and undefined; \<^verbatim>\<open>useCountries\<close> sets no \<open>enabled\<close> option, which the
  library reads as enabled. \<^verbatim>\<open>!!countryIsoCode\<close> is false exactly for the empty string.
\<close>

datatype key_part = KString string | KNumber int | KUndefined

record query_options =
  queryKey :: "key_part list"
  queryFn :: "(string \<Rightarrow> fetch_outcome) \<Rightarrow> int \<Rightarrow> js_error + json"
  enabled :: bool
  staleTime :: nat
  retry :: "nat \<Rightarrow> js_error \<Rightarrow> bool"
  retryDelay :: "nat \<Rightarrow> nat"

definition useCountries :: query_options where
  "useCountries =
     \<lparr>queryKey = [KString ''countries''],
      queryFn = (\<lambda>net nowYear. fetchCountries net),
      enabled = True,
      staleTime = CACHE_TIMES_COUNTRIES,
      retry = useCountries_retry,
      retryDelay = useCountries_retryDelay\<rparr>"

definition useHolidays :: "string \<Rightarrow> int option \<Rightarrow> query_options" where
  "useHolidays countryIsoCode year =
     \<lparr>queryKey = [KString ''holidays'', KString countryIsoCode,
                  (case year of None \<Rightarrow> KUndefined | Some y \<Rightarrow> KNumber y)],
      queryFn = (\<lambda>net nowYear. fetchHolidays net nowYear countryIsoCode year),
      enabled = (countryIsoCode \<noteq> []),
      staleTime = CACHE_TIMES_HOLIDAYS,
      retry = useHolidays_retry,
      retryDelay = useHolidays_retryDelay\<rparr>"

text \<open>
  \<^verbatim>\<open>HolidayList\<close>, by which of its views it renders for what the holidays hook returned;
  the markup of each view is left out.
\<close>

record query_result =
  data :: "json option"
  isLoading :: bool
  error :: "js_error option"

datatype view =
    RenderNull
  | RenderError js_error
  | RenderSkeleton
  | RenderHolidays "json list"
  | RenderNoHolidays

definition HolidayList :: "string \<Rightarrow> query_result \<Rightarrow> view" where
  "HolidayList countryIsoCode r =
     (if countryIsoCode = [] then RenderNull
      else case error r of
        Some e \<Rightarrow> RenderError e
      | None \<Rightarrow>
          if isLoading r then RenderSkeleton
          else (case data r of
                  Some (JArr (h # hs)) \<Rightarrow> RenderHolidays (h # hs)
                | _ \<Rightarrow> RenderNoHolidays))"

section \<open>The Query Layer\<close>

text \<open>
  Modelled from the spec: the Query Layer itself, which is the query library and the
  \<^verbatim>\<open>queryClient\<close> module, neither of them among the sources. The model follows section
  4.3 of the specification: one cache entry per key with the states Idle, Fetching,
  Fresh, Stale and Errored; an access starts a fetch when the entry is Idle or Stale and
  shares the one in flight when it is Fetching; Fresh turns Stale when the stale time has
  elapsed; a failure is retried while the hook's retry predicate grants it, and the entry
  is Errored after that until a refetch; a request for a key whose \<open>enabled\<close> is false
  performs no network activity and leaves the entry inert. A refetch (section 6) fetches
  at once, whatever the freshness; the specification does not say that \<open>enabled\<close> holds
  it back, and the model does not either. \<open>requests\<close> counts the network calls made for
  the key.
\<close>

datatype entry_state = Idle | Fetching | Fresh | Stale | Errored

text \<open>Modelled from the spec: the cache entry of one key, which the Query Layer owns (the
  key and the fetch time are left out; the count of failures of the running fetch and of
  the network calls made are added).\<close>

record cache_entry =
  "value" :: "json option"
  failure :: "js_error option"
  state :: entry_state
  failures :: nat
  requests :: nat

text \<open>Modelled from the spec: what can happen to a key: a consumer reads it, a consumer
  asks for a refetch, the stale time elapses, the network call in flight settles.\<close>

datatype event = Access | Refetch | StaleTimeElapsed | Settled "js_error + json"

text \<open>
  The retry button of \<^verbatim>\<open>HolidayList\<close>: only the error view has one, and it asks for a
  refetch.
\<close>

fun onRetry :: "view \<Rightarrow> event option" where
  "onRetry (RenderError e) = Some Refetch"
| "onRetry v = None"

text \<open>Modelled from the spec: the entry of a key that was never requested.\<close>

definition initial_entry :: cache_entry where
  "initial_entry = \<lparr>value = None, failure = None, state = Idle, failures = 0, requests = 0\<rparr>"

text \<open>Modelled from the spec: Idle or Stale to Fetching, with one network call.\<close>

definition start_fetch :: "cache_entry \<Rightarrow> cache_entry" where
  "start_fetch c = c\<lparr>state := Fetching, failures := 0, requests := requests c + 1\<rparr>"

text \<open>Modelled from the spec: the state machine of one key, under the options of its
  hook.\<close>

fun query_step :: "query_options \<Rightarrow> cache_entry \<Rightarrow> event \<Rightarrow> cache_entry" where
  "query_step opts c Access =
     (if \<not> enabled opts then c
      else if state c = Idle \<or> state c = Stale then start_fetch c
      else c)"
| "query_step opts c Refetch =
     (if state c = Fetching then c else start_fetch c)"
| "query_step opts c StaleTimeElapsed =
     (if state c = Fresh then c\<lparr>state := Stale\<rparr> else c)"
| "query_step opts c (Settled (Inr v)) =
     (if state c = Fetching then c\<lparr>value := Some v, failure := None, state := Fresh\<rparr>
      else c)"
| "query_step opts c (Settled (Inl e)) =
     (if state c = Fetching then
        (if retry opts (failures c) e
         then c\<lparr>failures := failures c + 1, requests := requests c + 1\<rparr>
         else c\<lparr>failure := Some e, state := Errored\<rparr>)
      else c)"

text \<open>Modelled from the spec: the entry after a sequence of events, from the start.\<close>

definition query_run :: "query_options \<Rightarrow> event list \<Rightarrow> cache_entry" where
  "query_run opts evs = foldl (query_step opts) initial_entry evs"

text \<open>Modelled from the spec: what the consumer reads of an entry (data, loading flag and
  error).\<close>

definition read_entry :: "cache_entry \<Rightarrow> query_result" where
  "read_entry c =
     \<lparr>data = value c,
      isLoading = (state c = Fetching \<and> value c = None),
      error = (if state c = Errored then failure c else None)\<rparr>"

text \<open>
  Modelled from the spec: the cache of the Query Layer, one entry per key. An event
  comes with the options of the hook call it belongs to: a read or refetch by a consumer
  of that call, or the settling of the fetch that call's \<open>queryFn\<close> started. It is applied
  to the entry under that call's \<open>queryKey\<close> and to no other.
\<close>

definition cache_step ::
    "(key_part list \<Rightarrow> cache_entry) \<Rightarrow> query_options \<times> event \<Rightarrow> (key_part list \<Rightarrow> cache_entry)" where
  "cache_step cache oe =
     cache(queryKey (fst oe) := query_step (fst oe) (cache (queryKey (fst oe))) (snd oe))"

text \<open>Modelled from the spec: the cache after a sequence of events for any keys.\<close>

definition cache_run ::
    "(key_part list \<Rightarrow> cache_entry) \<Rightarrow> (query_options \<times> event) list
       \<Rightarrow> (key_part list \<Rightarrow> cache_entry)" where
  "cache_run cache evs = foldl cache_step cache evs"

section \<open>Properties of the retry policy\<close>

text \<open>
  Claim C2: an error named \<^verbatim>\<open>ValidationError\<close> is never retried, by the retry predicate of
  the countries resource and by that of the holidays resource, whatever the failure count.
\<close>

theorem validation_error_never_retried:
  "js_error.name e = ''ValidationError'' \<Longrightarrow>
     \<not> useCountries_retry failureCount e \<and> \<not> useHolidays_retry failureCount e"
  by (simp add: useCountries_retry_def useHolidays_retry_def)

theorem validation_error_never_retried_witness:
  "js_error.name (ValidationError ''Invalid API response format'' (ZodError [InvalidType ''array'' []]))
     = ''ValidationError''
   \<and> \<not> useCountries_retry 0 (ValidationError ''Invalid API response format''
          (ZodError [InvalidType ''array'' []]))
   \<and> \<not> useHolidays_retry 0 (ValidationError ''Invalid API response format''
          (ZodError [InvalidType ''array'' []]))"
  using validation_error_never_retried
    [of "ValidationError ''Invalid API response format'' (ZodError [InvalidType ''array'' []])" 0]
  by (simp add: ValidationError_def)

text \<open>
  Claim C3: the delay before retry number \<open>n\<close> is \<open>min (1000 * 2 ^ n) max_delay\<close>
  milliseconds, with a maximum of 30000 for the countries resource and of 10000 for the
  holidays resource. The countries predicate grants a retry of an error that is not a
  validation error exactly at the failure counts 0, 1 and 2, so such a failure is retried
  three times, after 1000, 2000 and 4000 ms, and then no more; the holidays predicate
  grants at most the failure counts 0 and 1, and exactly those for an error that is
  neither a validation error nor has 404 in its message.
\<close>

theorem retry_policy_configuration:
  "useCountries_retryDelay n = min (1000 * 2 ^ n) 30000
   \<and> useHolidays_retryDelay n = min (1000 * 2 ^ n) 10000
   \<and> (js_error.name e \<noteq> ''ValidationError'' \<longrightarrow> useCountries_retry k e = (k < 3))
   \<and> (js_error.name e \<noteq> ''ValidationError'' \<and> \<not> includes_str (message e) ''404''
        \<longrightarrow> useHolidays_retry k e = (k < 2))
   \<and> (useCountries_retry k e \<longrightarrow> k < 3)
   \<and> (useHolidays_retry k e \<longrightarrow> k < 2)
   \<and> map useCountries_retryDelay [0, 1, 2] = [1000, 2000, 4000]
   \<and> map useHolidays_retryDelay [0, 1] = [1000, 2000]"
  by (simp add: useCountries_retryDelay_def useHolidays_retryDelay_def useCountries_retry_def
        useHolidays_retry_def MAX_RETRIES_def DELAY_MULTIPLIER_def MAX_DELAY_def)

theorem retry_policy_configuration_witness:
  "js_error.name (HolidaysApiError ''Failed to fetch'' None None) \<noteq> ''ValidationError''
   \<and> \<not> includes_str (message (HolidaysApiError ''Failed to fetch'' None None)) ''404''
   \<and> useCountries_retry 2 (HolidaysApiError ''Failed to fetch'' None None)
   \<and> \<not> useCountries_retry 3 (HolidaysApiError ''Failed to fetch'' None None)
   \<and> useHolidays_retry 1 (HolidaysApiError ''Failed to fetch'' None None)
   \<and> \<not> useHolidays_retry 2 (HolidaysApiError ''Failed to fetch'' None None)
   \<and> useCountries_retryDelay 5 = 30000
   \<and> useHolidays_retryDelay 4 = 10000"
  using retry_policy_configuration [of 5 "HolidaysApiError ''Failed to fetch'' None None" 2]
    retry_policy_configuration [of 4 "HolidaysApiError ''Failed to fetch'' None None" 3]
    retry_policy_configuration [of 4 "HolidaysApiError ''Failed to fetch'' None None" 1]
  by (simp add: HolidaysApiError_def includes_str_def sublist_code)

text \<open>
  Claim C1: a 404 response from the holidays endpoint makes \<^verbatim>\<open>fetchHolidays\<close> throw the
  error of a missing resource (a \<^verbatim>\<open>HolidaysApiError\<close> of status 404), and the retry
  predicate of the holidays resource should refuse it. The predicate looks for 404 in the
  message, but the message holds the status text, not the status code: for the usual
  response \<^verbatim>\<open>404 Not Found\<close> the predicate grants a retry at the failure counts 0 and 1.
\<close>

theorem not_found_response_is_retried:
  "fetchHolidays (\<lambda>url. Resolved \<lparr>status = 404, statusText = ''Not Found'', body = Inr JNull\<rparr>)
       2025 ''US'' None
     = Inl (HolidaysApiError ''API request failed: Not Found'' (Some 404) None)
   \<and> useHolidays_retry 0 (HolidaysApiError ''API request failed: Not Found'' (Some 404) None)
   \<and> useHolidays_retry 1 (HolidaysApiError ''API request failed: Not Found'' (Some 404) None)"
  by (simp add: fetchHolidays_def fetchWithValidation_def try_block_def catch_block_def ok_def
        useHolidays_retry_def HolidaysApiError_def includes_str_def sublist_code)

section \<open>Properties of validation\<close>

text \<open>Gathering fails as soon as one part fails.\<close>

lemma collect_Inl: "\<exists>r\<in>set rs. isl r \<Longrightarrow> isl (collect rs)"
proof (induction rs)
  case Nil
  then show ?case by simp
next
  case (Cons r rs)
  show ?case
  proof (cases r)
    case (Inl es)
    then show ?thesis by (simp split: sum.splits)
  next
    case (Inr v)
    with Cons.prems have "\<exists>r\<in>set rs. isl r" by auto
    then have "isl (collect rs)" by (rule Cons.IH)
    with Inr show ?thesis by (auto split: sum.splits)
  qed
qed

text \<open>A conforming value parses to the JSON value of the typed value it holds, at any
  place of the input; so does a list of them, element by element.\<close>

lemma parse_LocalizedText_conforms:
  "conforms_LocalizedText j t \<Longrightarrow> parse LocalizedTextSchema p j = Inr (LocalizedText_json t)"
  by (cases j) (simp_all add: LocalizedTextSchema_def LocalizedText_json_def)

lemma parse_LocalizedText_list:
  "list_all2 conforms_LocalizedText ns ts \<Longrightarrow>
     collect (map (\<lambda>ij. parse LocalizedTextSchema (q ij) (snd ij)) (enumerate k ns))
       = Inr (map LocalizedText_json ts)"
  by (induction ns ts arbitrary: k rule: list_all2_induct)
     (simp_all add: parse_LocalizedText_conforms)

lemma parse_string_list:
  "collect (map (\<lambda>ij. parse ZString (q ij) (snd ij)) (enumerate k (map JStr ls)))
     = Inr (map JStr ls)"
  by (induction ls arbitrary: k) simp_all

lemma parse_Country_conforms:
  "conforms_Country j c \<Longrightarrow> parse CountrySchema p j = Inr (Country_json c)"
  by (cases j)
     (auto simp add: CountrySchema_def Country_json_def parse_LocalizedText_list parse_string_list
        split: option.splits json.splits)

lemma parse_Country_list:
  "list_all2 conforms_Country js cs \<Longrightarrow>
     collect (map (\<lambda>ij. parse CountrySchema (q ij) (snd ij)) (enumerate k js))
       = Inr (map Country_json cs)"
  by (induction js cs arbitrary: k rule: list_all2_induct)
     (simp_all add: parse_Country_conforms)

lemma parse_Countries_conforms:
  "list_all2 conforms_Country js cs \<Longrightarrow>
     schema_parse CountriesResponseSchema (JArr js) = Inr (JArr (map Country_json cs))"
  by (simp add: schema_parse_def CountriesResponseSchema_def parse_Country_list)

text \<open>An array with a failing element fails, and so does an object with a failing or
  absent required member.\<close>

lemma parse_array_element_fails:
  "\<exists>j\<in>set js. \<forall>q. isl (parse s q j) \<Longrightarrow> isl (parse (ZArray s) p (JArr js))"
proof -
  assume a: "\<exists>j\<in>set js. \<forall>q. isl (parse s q j)"
  then obtain j where j: "j \<in> set js" "\<forall>q. isl (parse s q j)" by blast
  from j(1) obtain i where "i < length js" "js ! i = j"
    by (auto simp add: in_set_conv_nth)
  then have "(i, j) \<in> set (enumerate 0 js)"
    by (simp add: in_set_enumerate_eq)
  moreover have "isl (parse s (p @ [Idx (fst (i, j))]) (snd (i, j)))"
    using j(2) by simp
  ultimately have
    "\<exists>r\<in>set (map (\<lambda>ij. parse s (p @ [Idx (fst ij)]) (snd ij)) (enumerate 0 js)). isl r"
    unfolding set_map by (intro rev_bexI [OF imageI])
  then have "isl (collect (map (\<lambda>ij. parse s (p @ [Idx (fst ij)]) (snd ij)) (enumerate 0 js)))"
    by (rule collect_Inl)
  then show ?thesis by (auto split: sum.splits)
qed

lemma parse_object_member_fails:
  assumes "(k, s) \<in> set shape"
    and "case map_of kvs k of
           None \<Rightarrow> \<not> is_optional s
         | Some v \<Rightarrow> isl (parse s (p @ [Key k]) v)"
  shows "isl (parse (ZObject shape) p (JObj kvs))"
proof -
  let ?g = "\<lambda>f. case map_of kvs (fst f) of
                  None \<Rightarrow>
                    if is_optional (snd f) then Inr []
                    else Inl [InvalidType (type_name (snd f)) (p @ [Key (fst f)])]
                | Some v \<Rightarrow>
                    (case parse (snd f) (p @ [Key (fst f)]) v of
                       Inl es \<Rightarrow> Inl es
                     | Inr x \<Rightarrow> Inr [(fst f, x)])"
  have failing: "isl (?g (k, s))"
    using assms(2) by (cases "map_of kvs k") (auto split: sum.splits)
  from assms(1) have "?g (k, s) \<in> set (map ?g shape)"
    unfolding set_map by (rule imageI)
  then have "\<exists>r\<in>set (map ?g shape). isl r"
    using failing by (rule rev_bexI)
  then have "isl (collect (map ?g shape))"
    by (rule collect_Inl)
  then obtain es where "collect (map ?g shape) = Inl es"
    by (cases "collect (map ?g shape)") simp_all
  then show ?thesis
    by simp
qed

lemma parse_LocalizedText_missing:
  assumes "missing_LocalizedText_field j"
  shows "isl (parse LocalizedTextSchema p j)"
proof (cases j)
  case (JObj kvs)
  with assms consider
      (lang) "map_of kvs ''language'' = None"
    | (no_text) "map_of kvs ''text'' = None"
    by auto
  then have "isl (parse (ZObject [(''language'', ZString), (''text'', ZString)]) p (JObj kvs))"
  proof cases
    case lang
    then show ?thesis
      by (intro parse_object_member_fails [where k = "''language''" and s = ZString]) simp_all
  next
    case no_text
    then show ?thesis
      by (intro parse_object_member_fails [where k = "''text''" and s = ZString]) simp_all
  qed
  with JObj show ?thesis by (simp only: LocalizedTextSchema_def)
qed (use assms in simp_all)

lemma parse_Country_missing:
  assumes "missing_Country_field j"
  shows "isl (parse CountrySchema p j)"
proof (cases j)
  case (JObj kvs)
  from assms JObj consider
      (iso) "map_of kvs ''isoCode'' = None"
    | (name) "map_of kvs ''name'' = None"
    | (langs) "map_of kvs ''officialLanguages'' = None"
    | (inner) ns where "map_of kvs ''name'' = Some (JArr ns)"
        "list_ex missing_LocalizedText_field ns"
    by (auto split: option.splits json.splits)
  then have "isl (parse (ZObject [(''isoCode'', ZString),
      (''name'', ZArray LocalizedTextSchema),
      (''officialLanguages'', ZArray ZString)]) p (JObj kvs))"
  proof cases
    case iso
    then show ?thesis
      by (intro parse_object_member_fails [where k = "''isoCode''" and s = ZString]) simp_all
  next
    case name
    then show ?thesis
      by (intro parse_object_member_fails
            [where k = "''name''" and s = "ZArray LocalizedTextSchema"]) simp_all
  next
    case langs
    then show ?thesis
      by (intro parse_object_member_fails
            [where k = "''officialLanguages''" and s = "ZArray ZString"]) simp_all
  next
    case inner
    from inner(2) have "\<exists>j\<in>set ns. \<forall>q. isl (parse LocalizedTextSchema q j)"
      unfolding list_ex_iff using parse_LocalizedText_missing by blast
    then have "isl (parse (ZArray LocalizedTextSchema) (p @ [Key ''name'']) (JArr ns))"
      by (rule parse_array_element_fails)
    with inner(1) show ?thesis
      by (intro parse_object_member_fails
            [where k = "''name''" and s = "ZArray LocalizedTextSchema"])
         (simp_all del: parse.simps)
  qed
  with JObj show ?thesis by (simp only: CountrySchema_def)
qed (use assms in simp_all)

lemma parse_Countries_missing:
  assumes "list_ex missing_Country_field js"
  shows "\<exists>z. schema_parse CountriesResponseSchema (JArr js) = Inl z"
proof -
  from assms have "\<exists>j\<in>set js. \<forall>q. isl (parse CountrySchema q j)"
    unfolding list_ex_iff using parse_Country_missing by blast
  then have "isl (parse (ZArray CountrySchema) [] (JArr js))"
    by (rule parse_array_element_fails)
  then show ?thesis
    by (cases "parse (ZArray CountrySchema) [] (JArr js)")
       (simp_all add: schema_parse_def CountriesResponseSchema_def del: parse.simps)
qed

text \<open>A successful response whose body is JSON comes down to the parse of the body.\<close>

lemma fetchWithValidation_ok_body:
  assumes "net url = Resolved r" and "ok r" and "body r = Inr d"
  shows "fetchWithValidation net url schema =
           (case schema_parse schema d of
              Inl z \<Rightarrow> Inl (ValidationError ''Invalid API response format'' z)
            | Inr v \<Rightarrow> Inr v)"
  using assms
  by (simp add: fetchWithValidation_def try_block_def catch_block_def split: sum.splits)

text \<open>
  Claim C4: when the countries endpoint answers with a JSON array whose elements conform
  to the Country shape, validation succeeds and returns an array of the same length that
  holds, element by element, the fields of the input (the JSON value of the typed
  countries the input conforms to); when an element lacks a required field, validation
  fails with a \<^verbatim>\<open>ValidationError\<close>; the empty array is valid and is returned as it is.
\<close>

theorem countries_validation:
  assumes "net (API_BASE_URL @ ''/Countries'') = Resolved r" and "ok r"
    and "body r = Inr (JArr js)"
  shows "(list_all2 conforms_Country js cs \<longrightarrow>
            fetchCountries net = Inr (JArr (map Country_json cs)) \<and> length cs = length js)
       \<and> (list_ex missing_Country_field js \<longrightarrow>
            (\<exists>z. fetchCountries net = Inl (ValidationError ''Invalid API response format'' z)))
       \<and> (js = [] \<longrightarrow> fetchCountries net = Inr (JArr []))"
proof -
  have run: "fetchCountries net =
           (case schema_parse CountriesResponseSchema (JArr js) of
              Inl z \<Rightarrow> Inl (ValidationError ''Invalid API response format'' z)
            | Inr v \<Rightarrow> Inr v)"
    unfolding fetchCountries_def using assms by (rule fetchWithValidation_ok_body)
  have "fetchCountries net = Inr (JArr (map Country_json cs)) \<and> length cs = length js"
    if "list_all2 conforms_Country js cs"
    using that by (simp add: run parse_Countries_conforms list_all2_lengthD)
  moreover have "\<exists>z. fetchCountries net = Inl (ValidationError ''Invalid API response format'' z)"
    if "list_ex missing_Country_field js"
    using parse_Countries_missing [OF that] by (auto simp add: run)
  moreover have "fetchCountries net = Inr (JArr [])" if "js = []"
    using that by (simp add: run schema_parse_def CountriesResponseSchema_def)
  ultimately show ?thesis by blast
qed

theorem countries_validation_witness:
  "ok \<lparr>status = 200, statusText = ''OK'', body = Inr (JArr
        [JObj [(''name'', JArr [JObj [(''text'', JStr ''Germany''), (''language'', JStr ''EN'')]]),
               (''isoCode'', JStr ''DE''),
               (''officialLanguages'', JArr [JStr ''DE''])]])\<rparr>
   \<and> list_all2 conforms_Country
        [JObj [(''name'', JArr [JObj [(''text'', JStr ''Germany''), (''language'', JStr ''EN'')]]),
               (''isoCode'', JStr ''DE''),
               (''officialLanguages'', JArr [JStr ''DE''])]]
        [\<lparr>isoCode = ''DE'', name = [\<lparr>language = ''EN'', text = ''Germany''\<rparr>],
          officialLanguages = [''DE'']\<rparr>]
   \<and> fetchCountries (\<lambda>url. Resolved \<lparr>status = 200, statusText = ''OK'', body = Inr (JArr
        [JObj [(''name'', JArr [JObj [(''text'', JStr ''Germany''), (''language'', JStr ''EN'')]]),
               (''isoCode'', JStr ''DE''),
               (''officialLanguages'', JArr [JStr ''DE''])]])\<rparr>)
       = Inr (JArr [Country_json \<lparr>isoCode = ''DE'',
                      name = [\<lparr>language = ''EN'', text = ''Germany''\<rparr>],
                      officialLanguages = [''DE'']\<rparr>])
   \<and> list_ex missing_Country_field [JObj [(''isoCode'', JStr ''DE''), (''name'', JArr [])]]
   \<and> (\<exists>z. fetchCountries (\<lambda>url. Resolved \<lparr>status = 200, statusText = ''OK'', body = Inr (JArr
        [JObj [(''isoCode'', JStr ''DE''), (''name'', JArr [])]])\<rparr>)
         = Inl (ValidationError ''Invalid API response format'' z))
   \<and> fetchCountries (\<lambda>url. Resolved \<lparr>status = 200, statusText = ''OK'', body = Inr (JArr [])\<rparr>)
       = Inr (JArr [])"
  using
    countries_validation
      [of "\<lambda>url. Resolved \<lparr>status = 200, statusText = ''OK'', body = Inr (JArr
        [JObj [(''name'', JArr [JObj [(''text'', JStr ''Germany''), (''language'', JStr ''EN'')]]),
               (''isoCode'', JStr ''DE''),
               (''officialLanguages'', JArr [JStr ''DE''])]])\<rparr>"
          "\<lparr>status = 200, statusText = ''OK'', body = Inr (JArr
        [JObj [(''name'', JArr [JObj [(''text'', JStr ''Germany''), (''language'', JStr ''EN'')]]),
               (''isoCode'', JStr ''DE''),
               (''officialLanguages'', JArr [JStr ''DE''])]])\<rparr>"
          "[JObj [(''name'', JArr [JObj [(''text'', JStr ''Germany''), (''language'', JStr ''EN'')]]),
               (''isoCode'', JStr ''DE''),
               (''officialLanguages'', JArr [JStr ''DE''])]]"
          "[\<lparr>isoCode = ''DE'', name = [\<lparr>language = ''EN'', text = ''Germany''\<rparr>],
          officialLanguages = [''DE'']\<rparr>]"]
    countries_validation
      [of "\<lambda>url. Resolved \<lparr>status = 200, statusText = ''OK'', body = Inr (JArr
        [JObj [(''isoCode'', JStr ''DE''), (''name'', JArr [])]])\<rparr>"
          "\<lparr>status = 200, statusText = ''OK'', body = Inr (JArr
        [JObj [(''isoCode'', JStr ''DE''), (''name'', JArr [])]])\<rparr>"
          "[JObj [(''isoCode'', JStr ''DE''), (''name'', JArr [])]]" "[]"]
    countries_validation
      [of "\<lambda>url. Resolved \<lparr>status = 200, statusText = ''OK'', body = Inr (JArr [])\<rparr>"
          "\<lparr>status = 200, statusText = ''OK'', body = Inr (JArr [])\<rparr>" "[]" "[]"]
  by (simp add: ok_def)

text \<open>
  Claim C5: for a successful (2xx) response whose body is JSON that the schema rejects,
  the client throws a \<^verbatim>\<open>ValidationError\<close> whose cause is the validator's error, and not
  the generic \<^verbatim>\<open>HolidaysApiError\<close>.
\<close>

theorem schema_failure_is_validation_error:
  assumes "net url = Resolved r" and "ok r" and "body r = Inr d"
    and "schema_parse schema d = Inl z"
  shows "fetchWithValidation net url schema
           = Inl (ValidationError ''Invalid API response format'' z)
       \<and> js_error.name (ValidationError ''Invalid API response format'' z) = ''ValidationError''
       \<and> js_error.name (ValidationError ''Invalid API response format'' z) \<noteq> ''HolidaysApiError''
       \<and> cause (ValidationError ''Invalid API response format'' z) = Some z"
  using fetchWithValidation_ok_body [where net = net and url = url and schema = schema, OF assms(1-3)] assms(4)
  by (simp add: ValidationError_def)

theorem schema_failure_is_validation_error_witness:
  "ok \<lparr>status = 200, statusText = ''OK'', body = Inr (JObj [])\<rparr>
   \<and> schema_parse HolidaysResponseSchema (JObj []) = Inl (ZodError [InvalidType ''array'' []])
   \<and> fetchWithValidation
        (\<lambda>url. Resolved \<lparr>status = 200, statusText = ''OK'', body = Inr (JObj [])\<rparr>)
        ''https://openholidaysapi.org/PublicHolidays'' HolidaysResponseSchema
       = Inl (ValidationError ''Invalid API response format'' (ZodError [InvalidType ''array'' []]))"
  using schema_failure_is_validation_error
    [of "\<lambda>url. Resolved \<lparr>status = 200, statusText = ''OK'', body = Inr (JObj [])\<rparr>"
        "''https://openholidaysapi.org/PublicHolidays''"
        "\<lparr>status = 200, statusText = ''OK'', body = Inr (JObj [])\<rparr>"
        "JObj []" HolidaysResponseSchema "ZodError [InvalidType ''array'' []]"]
  by (simp add: ok_def schema_parse_def HolidaysResponseSchema_def)

section \<open>Properties of the holidays request\<close>

text \<open>
  Claim C6 as stated takes the year that is given: at the year 0 the request should span
  0-01-01 to 0-12-31, but the code asks for the current year.
\<close>

theorem fetchHolidays_year_zero_counterexample:
  "fetchHolidays_url 2025 ''US'' (Some 0)
     = ''https://openholidaysapi.org/PublicHolidays?countryIsoCode=US&languageIsoCode=EN&validFrom=2025-01-01&validTo=2025-12-31''
   \<and> fetchHolidays_url 2025 ''US'' (Some 0)
     \<noteq> ''https://openholidaysapi.org/PublicHolidays?countryIsoCode=US&languageIsoCode=EN&validFrom=0-01-01&validTo=0-12-31''"
  by (simp add: fetchHolidays_url_def API_BASE_URL_def number_toString_def digits.simps digit_char_def)

text \<open>
  Claim C6, amended: \<^verbatim>\<open>fetchHolidays\<close> takes the current calendar year when the year is
  omitted or 0, and the given year otherwise; it requests the URL whose query parameters
  are the given country code, the language EN, \<open>validFrom\<close> equal to year-01-01 and
  \<open>validTo\<close> equal to year-12-31, and validates the answer against the holidays schema.
\<close>

theorem fetchHolidays_request_url:
  "(year = None \<or> year = Some 0 \<longrightarrow>
      fetchHolidays_url nowYear countryIsoCode year
        = ''https://openholidaysapi.org/PublicHolidays?countryIsoCode='' @ countryIsoCode
            @ ''&languageIsoCode=EN&validFrom='' @ number_toString nowYear
            @ ''-01-01&validTo='' @ number_toString nowYear @ ''-12-31'')
   \<and> (year = Some y \<and> y \<noteq> 0 \<longrightarrow>
      fetchHolidays_url nowYear countryIsoCode year
        = ''https://openholidaysapi.org/PublicHolidays?countryIsoCode='' @ countryIsoCode
            @ ''&languageIsoCode=EN&validFrom='' @ number_toString y
            @ ''-01-01&validTo='' @ number_toString y @ ''-12-31'')
   \<and> fetchHolidays net nowYear countryIsoCode year
        = fetchWithValidation net (fetchHolidays_url nowYear countryIsoCode year)
            HolidaysResponseSchema"
  by (auto simp add: fetchHolidays_url_def API_BASE_URL_def fetchHolidays_def)

theorem fetchHolidays_request_url_witness:
  "fetchHolidays_url 2025 ''US'' None
     = ''https://openholidaysapi.org/PublicHolidays?countryIsoCode=US&languageIsoCode=EN&validFrom=2025-01-01&validTo=2025-12-31''
   \<and> fetchHolidays_url 2025 ''US'' (Some 2024)
     = ''https://openholidaysapi.org/PublicHolidays?countryIsoCode=US&languageIsoCode=EN&validFrom=2024-01-01&validTo=2024-12-31''
   \<and> fetchHolidays_url 2025 ''DE'' (Some 0)
     = ''https://openholidaysapi.org/PublicHolidays?countryIsoCode=DE&languageIsoCode=EN&validFrom=2025-01-01&validTo=2025-12-31''"
  using fetchHolidays_request_url
      [where year = None and nowYear = 2025 and countryIsoCode = "''US''"]
    fetchHolidays_request_url
      [where year = "Some 0" and nowYear = 2025 and countryIsoCode = "''DE''"]
    fetchHolidays_request_url
      [where year = "Some 2024" and y = 2024 and nowYear = 2025 and countryIsoCode = "''US''"]
  by (simp add: number_toString_def digits.simps digit_char_def)

section \<open>Properties of the localization helper\<close>

text \<open>The three-way choice of \<^verbatim>\<open>getLocalizedText\<close>, by cases.\<close>

lemma getLocalizedText_cases:
  "getLocalizedText items pl =
     (let fallback = (case items of
                        [] \<Rightarrow> ''Unknown''
                      | x # xs \<Rightarrow> if text x = [] then ''Unknown'' else text x)
      in case find (\<lambda>item. toLowerCase (language item)
                      = toLowerCase (case pl of None \<Rightarrow> ''en'' | Some l \<Rightarrow> l)) items of
           None \<Rightarrow> fallback
         | Some m \<Rightarrow> if text m = [] then fallback else text m)"
  by (simp add: getLocalizedText_def or_else_def Let_def split: option.splits list.splits)

text \<open>
  Claim C7 as stated returns the text of the matching entry, and the first entry's text
  when nothing matches: with an empty text in that place the code moves on instead.
\<close>

theorem getLocalizedText_empty_match_counterexample:
  "getLocalizedText
       [\<lparr>language = ''de'', text = ''Weihnachten''\<rparr>, \<lparr>language = ''EN'', text = ''''\<rparr>]
       (Some ''en'') = ''Weihnachten''
   \<and> getLocalizedText
       [\<lparr>language = ''de'', text = ''Weihnachten''\<rparr>, \<lparr>language = ''EN'', text = ''''\<rparr>]
       (Some ''en'') \<noteq> text \<lparr>language = ''EN'', text = ''''\<rparr>
   \<and> getLocalizedText [\<lparr>language = ''de'', text = ''''\<rparr>] (Some ''en'') = ''Unknown''
   \<and> getLocalizedText [\<lparr>language = ''de'', text = ''''\<rparr>] (Some ''en'')
       \<noteq> text \<lparr>language = ''de'', text = ''''\<rparr>"
  by (simp add: getLocalizedText_def or_else_def toLowerCase_def lower_char_def)

text \<open>
  Claim C7, amended: \<^verbatim>\<open>getLocalizedText\<close> returns the text of the first entry whose
  language equals the preferred language (\<open>en\<close> when none is given) without regard to
  case, when that text is not empty; when no entry matches, the text of the first entry,
  when that text is not empty; and \<open>Unknown\<close> for the empty list.
\<close>

theorem getLocalizedText_picks_nonempty:
  "(find (\<lambda>item. toLowerCase (language item)
             = toLowerCase (case pl of None \<Rightarrow> ''en'' | Some l \<Rightarrow> l)) items = Some m
      \<and> text m \<noteq> [] \<longrightarrow> getLocalizedText items pl = text m)
   \<and> (find (\<lambda>item. toLowerCase (language item)
             = toLowerCase (case pl of None \<Rightarrow> ''en'' | Some l \<Rightarrow> l)) items = None
      \<and> items = x # xs \<and> text x \<noteq> [] \<longrightarrow> getLocalizedText items pl = text x)
   \<and> (items = [] \<longrightarrow> getLocalizedText items pl = ''Unknown'')"
  by (auto simp add: getLocalizedText_cases Let_def split: if_splits)

theorem getLocalizedText_picks_nonempty_witness:
  "getLocalizedText
       [\<lparr>language = ''de'', text = ''Weihnachten''\<rparr>, \<lparr>language = ''EN'', text = ''Christmas''\<rparr>]
       None = ''Christmas''
   \<and> getLocalizedText [\<lparr>language = ''de'', text = ''Weihnachten''\<rparr>] (Some ''en'')
       = ''Weihnachten''
   \<and> getLocalizedText [] (Some ''en'') = ''Unknown''"
  using getLocalizedText_picks_nonempty
      [where pl = None
         and items = "[\<lparr>language = ''de'', text = ''Weihnachten''\<rparr>, \<lparr>language = ''EN'', text = ''Christmas''\<rparr>]"
         and m = "\<lparr>language = ''EN'', text = ''Christmas''\<rparr>"]
    getLocalizedText_picks_nonempty
      [where pl = "Some ''en''" and items = "[\<lparr>language = ''de'', text = ''Weihnachten''\<rparr>]"
         and x = "\<lparr>language = ''de'', text = ''Weihnachten''\<rparr>" and xs = "[]"]
    getLocalizedText_picks_nonempty [where pl = "Some ''en''" and items = "[]"]
  by (simp add: toLowerCase_def lower_char_def)

text \<open>
  Claim C10: the result of \<^verbatim>\<open>getLocalizedText\<close> is never the empty string. When the
  matching entry has an empty text the result is the first entry's text, or \<open>Unknown\<close>
  when that is empty too; for a list without entries it is \<open>Unknown\<close>.
\<close>

theorem getLocalizedText_never_empty:
  "getLocalizedText items pl \<noteq> []
   \<and> (find (\<lambda>item. toLowerCase (language item)
             = toLowerCase (case pl of None \<Rightarrow> ''en'' | Some l \<Rightarrow> l)) items = Some m
      \<and> text m = [] \<longrightarrow>
      getLocalizedText items pl
        = (case items of [] \<Rightarrow> ''Unknown''
           | x # xs \<Rightarrow> if text x = [] then ''Unknown'' else text x))
   \<and> (items = [] \<longrightarrow> getLocalizedText items pl = ''Unknown'')"
  by (auto simp add: getLocalizedText_cases Let_def split: option.splits list.splits)

theorem getLocalizedText_never_empty_witness:
  "getLocalizedText
       [\<lparr>language = ''de'', text = ''''\<rparr>, \<lparr>language = ''en'', text = ''''\<rparr>] (Some ''EN'')
     = ''Unknown''
   \<and> getLocalizedText
       [\<lparr>language = ''de'', text = ''Weihnachten''\<rparr>, \<lparr>language = ''en'', text = ''''\<rparr>] (Some ''EN'')
     = ''Weihnachten''"
  using getLocalizedText_never_empty
      [where items = "[\<lparr>language = ''de'', text = ''''\<rparr>, \<lparr>language = ''en'', text = ''''\<rparr>]"
         and pl = "Some ''EN''" and m = "\<lparr>language = ''en'', text = ''''\<rparr>"]
    getLocalizedText_never_empty
      [where items = "[\<lparr>language = ''de'', text = ''Weihnachten''\<rparr>, \<lparr>language = ''en'', text = ''''\<rparr>]"
         and pl = "Some ''EN''" and m = "\<lparr>language = ''en'', text = ''''\<rparr>"]
  by (simp add: toLowerCase_def lower_char_def)

section \<open>Properties of a disabled query\<close>

text \<open>A key that is not enabled stays idle as long as nobody asks for a refetch.\<close>

lemma disabled_step_idle:
  "\<not> enabled opts \<Longrightarrow> state c = Idle \<Longrightarrow> ev \<noteq> Refetch \<Longrightarrow> query_step opts c ev = c"
  by (cases "(opts, c, ev)" rule: query_step.cases) auto

lemma disabled_run_idle:
  "\<not> enabled opts \<Longrightarrow> state c = Idle \<Longrightarrow> Refetch \<notin> set evs \<Longrightarrow>
     foldl (query_step opts) c evs = c"
  by (induction evs) (auto simp add: disabled_step_idle)

text \<open>
  Claim C8: for the empty country code the holidays query is not enabled. Whatever reads,
  elapsed stale times and settled calls reach its key, no network call is ever made for
  it and the consumer reads no data, no loading and no error. \<^verbatim>\<open>HolidayList\<close> renders
  nothing for the empty code, whatever the hook returns, so it shows no error and offers
  no retry, the one place where the program asks for a refetch.
\<close>

theorem empty_country_code_is_inert:
  "\<not> enabled (useHolidays [] year)
   \<and> HolidayList [] r = RenderNull
   \<and> onRetry (HolidayList [] r) = None
   \<and> (Refetch \<notin> set evs \<longrightarrow>
        requests (query_run (useHolidays [] year) evs) = 0
        \<and> read_entry (query_run (useHolidays [] year) evs)
            = \<lparr>data = None, isLoading = False, error = None\<rparr>)"
proof -
  have off: "\<not> enabled (useHolidays [] year)"
    by (simp add: useHolidays_def)
  have "query_run (useHolidays [] year) evs = initial_entry" if "Refetch \<notin> set evs"
    unfolding query_run_def using off _ that
    by (rule disabled_run_idle) (simp add: initial_entry_def)
  then show ?thesis
    using off by (simp add: initial_entry_def read_entry_def HolidayList_def)
qed

theorem empty_country_code_is_inert_witness:
  "Refetch \<notin> set [Access, StaleTimeElapsed, Settled (Inr (JArr [])), Access]
   \<and> requests (query_run (useHolidays [] None)
        [Access, StaleTimeElapsed, Settled (Inr (JArr [])), Access]) = 0
   \<and> HolidayList [] \<lparr>data = None, isLoading = False, error = None\<rparr> = RenderNull"
  using empty_country_code_is_inert
    [where year = None
       and evs = "[Access, StaleTimeElapsed, Settled (Inr (JArr [])), Access]"
       and r = "\<lparr>data = None, isLoading = False, error = None\<rparr>"]
  by simp

section \<open>Properties of the keyed cache\<close>

text \<open>An event changes the entry under its own key only, so the entry of a key is
  decided by the events of that key alone; and the query key of the holidays hook tells
  country and year apart.\<close>

lemma cache_step_other_key:
  "queryKey (fst oe) \<noteq> k \<Longrightarrow> cache_step cache oe k = cache k"
  by (simp add: cache_step_def)

lemma cache_step_own_key:
  "queryKey (fst oe) = k \<Longrightarrow> cache_step cache oe k = query_step (fst oe) (cache k) (snd oe)"
  by (auto simp add: cache_step_def)

lemma cache_run_own_events:
  "cache_run cache evs k =
     foldl (\<lambda>c oe. query_step (fst oe) c (snd oe)) (cache k)
       (filter (\<lambda>oe. queryKey (fst oe) = k) evs)"
proof (induction evs arbitrary: cache)
  case Nil
  then show ?case by (simp add: cache_run_def)
next
  case (Cons oe evs)
  have "cache_run cache (oe # evs) k = cache_run (cache_step cache oe) evs k"
    by (simp add: cache_run_def)
  also have "\<dots> = foldl (\<lambda>c oe. query_step (fst oe) c (snd oe)) (cache_step cache oe k)
       (filter (\<lambda>oe. queryKey (fst oe) = k) evs)"
    by (rule Cons.IH)
  finally show ?case
    by (cases "queryKey (fst oe) = k") (simp_all add: cache_step_other_key cache_step_own_key)
qed

lemma useHolidays_queryKey_inj:
  "queryKey (useHolidays c y) = queryKey (useHolidays c' y') \<longleftrightarrow> c = c' \<and> y = y'"
  by (auto simp add: useHolidays_def split: option.splits)

text \<open>
  Claim C9: when the lookup key changes (another country or another year is selected)
  while a fetch for the previous key is in flight, the response of that fetch is never
  written into the entry of the new key. The two hook calls have different query keys,
  and the fetch of the previous call is for the previous country and year; its settling,
  wherever it falls among the other events, leaves the new key's entry as it would be
  without it, and no sequence of events of the previous call changes the new key's entry.
\<close>

theorem previous_key_response_never_reaches_new_key:
  assumes "countryIsoCode \<noteq> countryIsoCode' \<or> year \<noteq> year'"
  shows "queryKey (useHolidays countryIsoCode year)
           \<noteq> queryKey (useHolidays countryIsoCode' year')
       \<and> queryFn (useHolidays countryIsoCode year) net nowYear
           = fetchHolidays net nowYear countryIsoCode year
       \<and> cache_step cache (useHolidays countryIsoCode year, Settled outcome)
             (queryKey (useHolidays countryIsoCode' year'))
           = cache (queryKey (useHolidays countryIsoCode' year'))
       \<and> cache_run cache (before @ (useHolidays countryIsoCode year, Settled outcome) # after)
             (queryKey (useHolidays countryIsoCode' year'))
           = cache_run cache (before @ after) (queryKey (useHolidays countryIsoCode' year'))
       \<and> ((\<forall>oe\<in>set evs. fst oe = useHolidays countryIsoCode year) \<longrightarrow>
            cache_run cache evs (queryKey (useHolidays countryIsoCode' year'))
              = cache (queryKey (useHolidays countryIsoCode' year')))"
proof -
  let ?k' = "queryKey (useHolidays countryIsoCode' year')"
  have keys: "queryKey (useHolidays countryIsoCode year) \<noteq> ?k'"
    using assms by (simp add: useHolidays_queryKey_inj)
  have fn: "queryFn (useHolidays countryIsoCode year) net nowYear
           = fetchHolidays net nowYear countryIsoCode year"
    by (simp add: useHolidays_def)
  have one: "cache_step cache (useHolidays countryIsoCode year, Settled outcome) ?k' = cache ?k'"
    using keys by (simp add: cache_step_other_key)
  have run: "cache_run cache (before @ (useHolidays countryIsoCode year, Settled outcome) # after) ?k'
           = cache_run cache (before @ after) ?k'"
    using keys by (simp add: cache_run_own_events)
  have "filter (\<lambda>oe. queryKey (fst oe) = ?k') evs = []"
    if "\<forall>oe\<in>set evs. fst oe = useHolidays countryIsoCode year"
    using that keys by (auto simp add: filter_empty_conv)
  then have all: "(\<forall>oe\<in>set evs. fst oe = useHolidays countryIsoCode year) \<longrightarrow>
            cache_run cache evs ?k' = cache ?k'"
    by (simp add: cache_run_own_events)
  from keys fn one run all show ?thesis by blast
qed

theorem previous_key_response_never_reaches_new_key_witness:
  "cache_run (\<lambda>k. initial_entry)
        ([(useHolidays ''DE'' None, Access), (useHolidays ''FR'' None, Access)]
           @ (useHolidays ''DE'' None, Settled (Inr (JArr []))) # [])
        (queryKey (useHolidays ''FR'' None))
     = cache_run (\<lambda>k. initial_entry)
        ([(useHolidays ''DE'' None, Access), (useHolidays ''FR'' None, Access)] @ [])
        (queryKey (useHolidays ''FR'' None))
   \<and> cache_step (\<lambda>k. initial_entry) (useHolidays ''DE'' None, Settled (Inr (JArr [])))
        (queryKey (useHolidays ''FR'' None))
     = initial_entry
   \<and> cache_run (\<lambda>k. initial_entry)
        [(useHolidays ''DE'' None, Access), (useHolidays ''DE'' None, Settled (Inr (JArr [])))]
        (queryKey (useHolidays ''FR'' None))
     = initial_entry"
  using previous_key_response_never_reaches_new_key
    [where countryIsoCode = "''DE''" and countryIsoCode' = "''FR''" and year = None
       and year' = None and cache = "\<lambda>k. initial_entry"
       and outcome = "Inr (JArr [])"
       and before = "[(useHolidays ''DE'' None, Access), (useHolidays ''FR'' None, Access)]"
       and after = "[]"
       and evs = "[(useHolidays ''DE'' None, Access),
                   (useHolidays ''DE'' None, Settled (Inr (JArr [])))]"]
  by simp

text \<open>The selected country changes from DE to FR while the fetch for DE is in flight:
  the late answer lands under DE, and FR is still loading.\<close>

lemma key_switch_example:
  "read_entry (cache_run (\<lambda>k. initial_entry)
        [(useHolidays ''DE'' None, Access), (useHolidays ''FR'' None, Access),
         (useHolidays ''DE'' None, Settled (Inr (JArr [JNull])))]
        (queryKey (useHolidays ''FR'' None)))
     = \<lparr>data = None, isLoading = True, error = None\<rparr>
   \<and> read_entry (cache_run (\<lambda>k. initial_entry)
        [(useHolidays ''DE'' None, Access), (useHolidays ''FR'' None, Access),
         (useHolidays ''DE'' None, Settled (Inr (JArr [JNull])))]
        (queryKey (useHolidays ''DE'' None)))
     = \<lparr>data = Some (JArr [JNull]), isLoading = False, error = None\<rparr>"
  by (simp add: cache_run_def cache_step_def useHolidays_def initial_entry_def start_fetch_def
        read_entry_def)

end
